theory Spec2Isabelle
  imports Complex_Main
begin

section \<open>Figures script: the numeric model functions\<close>

text \<open>
  A shallow embedding of \<^verbatim>\<open>src/Figures/figures_script.py\<close>: the three model functions
  \<^verbatim>\<open>w_z\<close>, \<^verbatim>\<open>S_z\<close>, \<^verbatim>\<open>variance_attractor\<close> and the grid evaluation of
  \<^verbatim>\<open>plot_resilience_valley\<close> (lines 176 to 187).

  Conventions of the embedding.
  \<^item> A finite binary64 value is read as the real number it stands for, and \<^verbatim>\<open>np.exp\<close>,
    \<^verbatim>\<open>np.log\<close>, \<^verbatim>\<open>np.cos\<close> as the real functions: rounding, underflow and the sign
    of zero are not modelled. Decimal literals (\<^verbatim>\<open>0.15\<close>, \<^verbatim>\<open>0.3\<close>) are the decimal
    fractions they denote.
  \<^item> Lines 39 and 90 are read twice. The exact reading (\<open>w_z\<close>, \<open>S_z\<close>) keeps every
    finite result exact. The range-aware reading (\<open>w_z_b64\<close>, \<open>S_z_b64\<close>) adds
    binary64 overflow: a result beyond the largest binary64 value is an infinity. The
    two agree wherever no intermediate result leaves the range.
  \<^item> The global generator behind \<^verbatim>\<open>np.random\<close> is explicit state of an arbitrary type
    \<open>'g\<close>. Its two operations are not part of the script and are parameters:
    \<open>seed\<close> (the state \<^verbatim>\<open>np.random.seed(n)\<close> installs) and \<open>randn\<close> (one call of
    \<^verbatim>\<open>np.random.randn()\<close>: the sample and the state after it).
  \<^item> A Python exception is a value \<open>Inl e\<close> of a sum type.
\<close>

subsection \<open>Variance attractor (lines 140 to 170)\<close>

text \<open>Python's \<^verbatim>\<open>max(a, b)\<close> keeps \<open>a\<close> unless \<open>b\<close> is strictly greater.\<close>

definition py_max :: "real \<Rightarrow> real \<Rightarrow> real" where
  "py_max a b = (if b > a then b else a)"

text \<open>
  Lines 146 to 165: the value of the local \<^verbatim>\<open>variance\<close> when the noise is about to be
  drawn. The parameter \<open>A\<close> is in scope and never read.
\<close>

definition variance_before_noise :: "real \<Rightarrow> real \<Rightarrow> real \<Rightarrow> real" where
  "variance_before_noise tau_H0 omega A =
     (let R = tau_H0 * omega;
          valley_center = 2.0;
          valley_width = 3.0;
          valley_term = exp (- (((R - valley_center) / valley_width) ^ 2));
          base_variance = 0.15;
          valley_depth = 0.12;
          variance = base_variance - valley_depth * valley_term;
          variance = (if tau_H0 < 0.3 \<or> tau_H0 > 6 then variance + 0.1 else variance);
          variance = (if omega < 0.5 \<or> omega > 6 then variance + 0.1 else variance)
      in variance)"

text \<open>Lines 168 to 170: one draw from the generator, scaled, added, floored.\<close>

definition variance_attractor ::
  "('g \<Rightarrow> real \<times> 'g) \<Rightarrow> real \<Rightarrow> real \<Rightarrow> real \<Rightarrow> 'g \<Rightarrow> real \<times> 'g" where
  "variance_attractor randn tau_H0 omega A g =
     (let variance = variance_before_noise tau_H0 omega A;
          (x, g') = randn g;
          noise = 0.01 * x
      in (py_max 0.01 (variance + noise), g'))"

subsection \<open>Exceptions and numpy's special values\<close>

datatype py_error = ZeroDivisionError | IndexError

text \<open>
  Python's \<^verbatim>\<open>a / b\<close> on two built-in numbers raises \<^verbatim>\<open>ZeroDivisionError\<close> when
  \<open>b\<close> is zero.
\<close>

definition py_truediv :: "real \<Rightarrow> real \<Rightarrow> py_error + real" where
  "py_truediv a b = (if b = 0 then Inl ZeroDivisionError else Inr (a / b))"

text \<open>
  A numpy \<^verbatim>\<open>float64\<close>: a finite value or one of the IEEE special values. numpy's
  arithmetic and its functions never raise: at a zero divisor or outside a function's
  domain they emit a \<^verbatim>\<open>RuntimeWarning\<close> and return an infinity or NaN.
\<close>

datatype npfloat = Fin real | PInf | NInf | NaN

fun np_add :: "npfloat \<Rightarrow> npfloat \<Rightarrow> npfloat" where
  "np_add NaN y = NaN"
| "np_add x NaN = NaN"
| "np_add (Fin a) (Fin b) = Fin (a + b)"
| "np_add (Fin a) y = y"
| "np_add x (Fin b) = x"
| "np_add PInf PInf = PInf"
| "np_add NInf NInf = NInf"
| "np_add PInf NInf = NaN"
| "np_add NInf PInf = NaN"

text \<open>An infinity times \<open>s\<close>, by the sign of \<open>s\<close>; times zero it is NaN.\<close>

definition signed_inf :: "bool \<Rightarrow> real \<Rightarrow> npfloat" where
  "signed_inf positive s =
     (if s = 0 then NaN else if (0 < s) = positive then PInf else NInf)"

fun np_mul :: "npfloat \<Rightarrow> npfloat \<Rightarrow> npfloat" where
  "np_mul NaN y = NaN"
| "np_mul x NaN = NaN"
| "np_mul (Fin a) (Fin b) = Fin (a * b)"
| "np_mul (Fin a) PInf = signed_inf True a"
| "np_mul (Fin a) NInf = signed_inf False a"
| "np_mul PInf (Fin b) = signed_inf True b"
| "np_mul NInf (Fin b) = signed_inf False b"
| "np_mul PInf PInf = PInf"
| "np_mul NInf NInf = PInf"
| "np_mul PInf NInf = NInf"
| "np_mul NInf PInf = NInf"

text \<open>
  numpy's division. A zero divisor is read as \<open>+0.0\<close>: a nonzero finite value over it
  is the infinity of its sign, zero over it is NaN.
\<close>

fun np_div :: "npfloat \<Rightarrow> npfloat \<Rightarrow> npfloat" where
  "np_div NaN y = NaN"
| "np_div x NaN = NaN"
| "np_div (Fin a) (Fin b) = (if b = 0 then signed_inf True a else Fin (a / b))"
| "np_div (Fin a) y = Fin 0"
| "np_div PInf (Fin b) = (if 0 \<le> b then PInf else NInf)"
| "np_div NInf (Fin b) = (if 0 \<le> b then NInf else PInf)"
| "np_div x y = NaN"

fun np_exp :: "npfloat \<Rightarrow> npfloat" where
  "np_exp (Fin a) = Fin (exp a)"
| "np_exp PInf = PInf"
| "np_exp NInf = Fin 0"
| "np_exp NaN = NaN"

fun np_log :: "npfloat \<Rightarrow> npfloat" where
  "np_log (Fin a) = (if 0 < a then Fin (ln a) else if a = 0 then NInf else NaN)"
| "np_log PInf = PInf"
| "np_log x = NaN"

fun np_cos :: "npfloat \<Rightarrow> npfloat" where
  "np_cos (Fin a) = Fin (cos a)"
| "np_cos x = NaN"

subsection \<open>Equation of state and geometric cutoff (lines 33 to 39 and 84 to 90)\<close>

text \<open>
  Both functions are called with \<open>z\<close> a built-in number or a numpy array (every call
  of the script passes \<^verbatim>\<open>np.linspace(...)\<close>); the other arguments are built-in
  numbers. The operand types decide which division runs: Python's on two built-in
  numbers, numpy's elementwise one on an array.
\<close>

datatype zarg = PyFloat real | NdArray "real list"

datatype zres = Float64 npfloat | Array "npfloat list"

text \<open>
  Line 39 for one element \<open>z\<close>, once the quotient \<open>q\<close> of \<^verbatim>\<open>-z / z_tau\<close> is known:
  \<^verbatim>\<open>-1.0 + A * np.exp(q) * np.cos(omega * np.log(1 + z) + delta)\<close>.
\<close>

definition w_z_of_quotient :: "npfloat \<Rightarrow> real \<Rightarrow> real \<Rightarrow> real \<Rightarrow> real \<Rightarrow> npfloat" where
  "w_z_of_quotient q z A omega delta =
     np_add (Fin (- 1.0))
       (np_mul (np_mul (Fin A) (np_exp q))
          (np_cos (np_add (np_mul (Fin omega) (np_log (Fin (1 + z)))) (Fin delta))))"

fun w_z :: "zarg \<Rightarrow> real \<Rightarrow> real \<Rightarrow> real \<Rightarrow> real \<Rightarrow> py_error + zres" where
  "w_z (PyFloat z) A omega delta z_tau =
     (case py_truediv (- z) z_tau of
        Inl e \<Rightarrow> Inl e
      | Inr q \<Rightarrow> Inr (Float64 (w_z_of_quotient (Fin q) z A omega delta)))"
| "w_z (NdArray zs) A omega delta z_tau =
     Inr (Array (map (\<lambda>z. w_z_of_quotient (np_div (Fin (- z)) (Fin z_tau)) z A omega delta) zs))"

text \<open>
  Line 90 once the quotient \<open>q\<close> of \<^verbatim>\<open>(z - z_c) / Delta_z\<close> is known:
  \<^verbatim>\<open>1.0 / (1.0 + np.exp(q))\<close>, a numpy division.
\<close>

definition S_z_of_quotient :: "npfloat \<Rightarrow> npfloat" where
  "S_z_of_quotient q = np_div (Fin 1.0) (np_add (Fin 1.0) (np_exp q))"

fun S_z :: "zarg \<Rightarrow> real \<Rightarrow> real \<Rightarrow> py_error + zres" where
  "S_z (PyFloat z) z_c Delta_z =
     (case py_truediv (z - z_c) Delta_z of
        Inl e \<Rightarrow> Inl e
      | Inr q \<Rightarrow> Inr (Float64 (S_z_of_quotient (Fin q))))"
| "S_z (NdArray zs) z_c Delta_z =
     Inr (Array (map (\<lambda>z. S_z_of_quotient (np_div (Fin (z - z_c)) (Fin Delta_z))) zs))"

subsection \<open>Grid evaluation of Figure 3 (lines 176 to 187)\<close>

text \<open>
  A two-dimensional numpy array: its shape and its rows. The shape is kept apart from
  the rows, as numpy does, so that an array with no rows still has a column count.
\<close>

record ndarray =
  shape :: "nat \<times> nat"
  cells :: "real list list"

text \<open>
  \<^verbatim>\<open>np.linspace(start, stop, num)\<close>: \<open>num\<close> evenly spaced samples, both ends included.
\<close>

definition linspace :: "real \<Rightarrow> real \<Rightarrow> nat \<Rightarrow> real list" where
  "linspace start stop num =
     map (\<lambda>k. start + real k * ((stop - start) / real (num - 1))) [0..<num]"

text \<open>
  \<^verbatim>\<open>np.meshgrid(xs, ys)\<close> with its default \<^verbatim>\<open>'xy'\<close> indexing: two arrays of shape
  \<open>(len ys, len xs)\<close>; the first repeats \<open>xs\<close> in every row, the second holds
  \<open>ys[i]\<close> throughout row \<open>i\<close>.
\<close>

definition meshgrid :: "real list \<Rightarrow> real list \<Rightarrow> ndarray \<times> ndarray" where
  "meshgrid xs ys =
     (\<lparr>shape = (length ys, length xs), cells = map (\<lambda>y. xs) ys\<rparr>,
      \<lparr>shape = (length ys, length xs), cells = map (\<lambda>y. replicate (length xs) y) ys\<rparr>)"

definition zeros_like :: "ndarray \<Rightarrow> ndarray" where
  "zeros_like a =
     \<lparr>shape = shape a, cells = replicate (fst (shape a)) (replicate (snd (shape a)) 0)\<rparr>"

text \<open>\<^verbatim>\<open>a[i, j]\<close> and \<^verbatim>\<open>a[i, j] = v\<close>; numpy raises \<^verbatim>\<open>IndexError\<close> out of range.\<close>

definition getitem :: "ndarray \<Rightarrow> nat \<Rightarrow> nat \<Rightarrow> py_error + real" where
  "getitem a i j =
     (if i < fst (shape a) \<and> j < snd (shape a) then Inr (cells a ! i ! j)
      else Inl IndexError)"

definition setitem :: "ndarray \<Rightarrow> nat \<Rightarrow> nat \<Rightarrow> real \<Rightarrow> py_error + ndarray" where
  "setitem a i j v =
     (if i < fst (shape a) \<and> j < snd (shape a)
      then Inr (a\<lparr>cells := (cells a)[i := (cells a ! i)[j := v]]\<rparr>)
      else Inl IndexError)"

text \<open>
  Lines 186 and 187, the loop over \<open>j\<close> for a fixed row \<open>i\<close>. The right-hand side is
  evaluated first (\<^verbatim>\<open>TAU[i, j]\<close>, \<^verbatim>\<open>OMEGA[i, j]\<close>, the call with the default
  \<^verbatim>\<open>A=0.02\<close>), then the cell is stored.
\<close>

fun inner_loop ::
  "('g \<Rightarrow> real \<times> 'g) \<Rightarrow> ndarray \<Rightarrow> ndarray \<Rightarrow> nat \<Rightarrow> nat list \<Rightarrow> ndarray \<Rightarrow> 'g
     \<Rightarrow> py_error + (ndarray \<times> 'g)" where
  "inner_loop randn TAU OMEGA i [] VARIANCE g = Inr (VARIANCE, g)"
| "inner_loop randn TAU OMEGA i (j # js) VARIANCE g =
     (case getitem TAU i j of
        Inl e \<Rightarrow> Inl e
      | Inr t \<Rightarrow>
          (case getitem OMEGA i j of
             Inl e \<Rightarrow> Inl e
           | Inr w \<Rightarrow>
               (case variance_attractor randn t w 0.02 g of
                  (v, g') \<Rightarrow>
                    (case setitem VARIANCE i j v of
                       Inl e \<Rightarrow> Inl e
                     | Inr VARIANCE' \<Rightarrow> inner_loop randn TAU OMEGA i js VARIANCE' g'))))"

text \<open>Line 185, the loop over \<open>i\<close>; each row runs \<^verbatim>\<open>range(TAU.shape[1])\<close>.\<close>

fun outer_loop ::
  "('g \<Rightarrow> real \<times> 'g) \<Rightarrow> ndarray \<Rightarrow> ndarray \<Rightarrow> nat list \<Rightarrow> ndarray \<Rightarrow> 'g
     \<Rightarrow> py_error + (ndarray \<times> 'g)" where
  "outer_loop randn TAU OMEGA [] VARIANCE g = Inr (VARIANCE, g)"
| "outer_loop randn TAU OMEGA (i # is) VARIANCE g =
     (case inner_loop randn TAU OMEGA i [0..<snd (shape TAU)] VARIANCE g of
        Inl e \<Rightarrow> Inl e
      | Inr (VARIANCE', g') \<Rightarrow> outer_loop randn TAU OMEGA is VARIANCE' g')"

text \<open>
  Lines 179 to 187 as a function of the two coordinate sequences bound on lines 176
  and 177, and of the generator's state \<open>g0\<close> on entry, which line 182 overwrites.
  The result is \<^verbatim>\<open>VARIANCE\<close> and the generator's state after the loops.
\<close>

definition variance_grid ::
  "(nat \<Rightarrow> 'g) \<Rightarrow> ('g \<Rightarrow> real \<times> 'g) \<Rightarrow> real list \<Rightarrow> real list \<Rightarrow> 'g
     \<Rightarrow> py_error + (ndarray \<times> 'g)" where
  "variance_grid seed randn tau_H0_vals omega_vals g0 =
     (let (TAU, OMEGA) = meshgrid tau_H0_vals omega_vals;
          g = seed 42;
          VARIANCE = zeros_like TAU
      in outer_loop randn TAU OMEGA [0..<fst (shape TAU)] VARIANCE g)"

text \<open>The grid the script evaluates: 80 by 80 samples (lines 176 and 177).\<close>

definition plot_resilience_valley_grid ::
  "(nat \<Rightarrow> 'g) \<Rightarrow> ('g \<Rightarrow> real \<times> 'g) \<Rightarrow> 'g \<Rightarrow> py_error + (ndarray \<times> 'g)" where
  "plot_resilience_valley_grid seed randn g0 =
     variance_grid seed randn (linspace 0.2 5.0 80) (linspace 0.5 5.5 80) g0"

text \<open>The generator's state after \<open>k\<close> calls of \<^verbatim>\<open>np.random.randn()\<close>.\<close>

primrec advance :: "('g \<Rightarrow> real \<times> 'g) \<Rightarrow> nat \<Rightarrow> 'g \<Rightarrow> 'g" where
  "advance randn 0 g = g"
| "advance randn (Suc k) g = advance randn k (snd (randn g))"

subsection \<open>The binary64 range (lines 39 and 90 again)\<close>

text \<open>
  The reading above takes every finite result as exact. It is the code's result up to
  rounding as long as no intermediate result leaves the binary64 range; beyond the
  range numpy and Python return an infinity, and line 39 and line 90 then behave
  differently from the exact formula. The definitions below read the same two lines
  with that overflow: each arithmetic result larger in magnitude than the largest
  binary64 value becomes the infinity of its sign. Rounding and underflow inside the
  range stay unmodelled.
\<close>

text \<open>
  The largest finite binary64 value, about \<open>1.8e308\<close>; \<^verbatim>\<open>np.exp\<close> exceeds it above
  \<open>ln b64_max\<close>, about \<open>709.78\<close>.
\<close>

definition b64_max :: real where
  "b64_max = (2 ^ 53 - 1) * 2 ^ 971"

definition b64_range :: "real \<Rightarrow> npfloat" where
  "b64_range x = (if b64_max < x then PInf else if x < - b64_max then NInf else Fin x)"

fun in_b64 :: "npfloat \<Rightarrow> npfloat" where
  "in_b64 (Fin x) = b64_range x"
| "in_b64 y = y"

text \<open>
  Python's \<^verbatim>\<open>a / b\<close> on two floats: \<^verbatim>\<open>ZeroDivisionError\<close> at a zero divisor; a
  quotient beyond the range is an infinity, without an exception.
\<close>

definition py_truediv_b64 :: "npfloat \<Rightarrow> real \<Rightarrow> py_error + npfloat" where
  "py_truediv_b64 a b =
     (if b = 0 then Inl ZeroDivisionError else Inr (in_b64 (np_div a (Fin b))))"

definition w_z_of_quotient_b64 :: "npfloat \<Rightarrow> real \<Rightarrow> real \<Rightarrow> real \<Rightarrow> real \<Rightarrow> npfloat" where
  "w_z_of_quotient_b64 q z A omega delta =
     in_b64 (np_add (Fin (- 1.0))
       (in_b64 (np_mul (in_b64 (np_mul (Fin A) (in_b64 (np_exp q))))
          (np_cos (in_b64 (np_add
             (in_b64 (np_mul (Fin omega) (np_log (b64_range (1 + z))))) (Fin delta)))))))"

fun w_z_b64 :: "zarg \<Rightarrow> real \<Rightarrow> real \<Rightarrow> real \<Rightarrow> real \<Rightarrow> py_error + zres" where
  "w_z_b64 (PyFloat z) A omega delta z_tau =
     (case py_truediv_b64 (Fin (- z)) z_tau of
        Inl e \<Rightarrow> Inl e
      | Inr q \<Rightarrow> Inr (Float64 (w_z_of_quotient_b64 q z A omega delta)))"
| "w_z_b64 (NdArray zs) A omega delta z_tau =
     Inr (Array (map (\<lambda>z. w_z_of_quotient_b64 (in_b64 (np_div (Fin (- z)) (Fin z_tau)))
                          z A omega delta) zs))"

definition S_z_of_quotient_b64 :: "npfloat \<Rightarrow> npfloat" where
  "S_z_of_quotient_b64 q =
     in_b64 (np_div (Fin 1.0) (in_b64 (np_add (Fin 1.0) (in_b64 (np_exp q)))))"

fun S_z_b64 :: "zarg \<Rightarrow> real \<Rightarrow> real \<Rightarrow> py_error + zres" where
  "S_z_b64 (PyFloat z) z_c Delta_z =
     (case py_truediv_b64 (b64_range (z - z_c)) Delta_z of
        Inl e \<Rightarrow> Inl e
      | Inr q \<Rightarrow> Inr (Float64 (S_z_of_quotient_b64 q)))"
| "S_z_b64 (NdArray zs) z_c Delta_z =
     Inr (Array (map (\<lambda>z. S_z_of_quotient_b64
                          (in_b64 (np_div (b64_range (z - z_c)) (Fin Delta_z)))) zs))"

text \<open>
  No intermediate result of line 39 leaves the binary64 range at the element \<open>z\<close>:
  the quotient, the exponential, the two products, the argument of the logarithm, the
  argument of the cosine and the final sum.
\<close>

definition w_z_in_range :: "real \<Rightarrow> real \<Rightarrow> real \<Rightarrow> real \<Rightarrow> real \<Rightarrow> bool" where
  "w_z_in_range z A omega delta z_tau =
     (let q = - z / z_tau;
          e = exp q;
          c = cos (omega * ln (1 + z) + delta)
      in \<bar>q\<bar> \<le> b64_max \<and> e \<le> b64_max \<and> \<bar>A * e\<bar> \<le> b64_max
         \<and> \<bar>1 + z\<bar> \<le> b64_max \<and> \<bar>omega * ln (1 + z)\<bar> \<le> b64_max
         \<and> \<bar>omega * ln (1 + z) + delta\<bar> \<le> b64_max
         \<and> \<bar>A * e * c\<bar> \<le> b64_max \<and> \<bar>- 1 + A * e * c\<bar> \<le> b64_max)"

text \<open>
  The value line 90 returns on this reading for a positive width, in closed form
  (lemma \<open>S_z_b64_scalar\<close> below): \<open>0\<close> once the difference, the quotient or the
  denominator overflows upwards, \<open>1\<close> once the difference or the quotient overflows
  downwards, the sigmoid in between.
\<close>

definition S_val :: "real \<Rightarrow> real \<Rightarrow> real \<Rightarrow> real" where
  "S_val z_c Delta_z z =
       (if b64_max < z - z_c \<or> b64_max < (z - z_c) / Delta_z then 0
        else if z - z_c < - b64_max \<or> (z - z_c) / Delta_z < - b64_max then 1
        else if b64_max < 1 + exp ((z - z_c) / Delta_z) then 0
        else 1 / (1 + exp ((z - z_c) / Delta_z)))"

section \<open>Properties\<close>

subsection \<open>Variance attractor\<close>

lemma py_max_ge: "a \<le> py_max a b"
  by (simp add: py_max_def)

lemma variance_before_noise_closed:
  "variance_before_noise tau_H0 omega A =
     0.15 - 0.12 * exp (- (((tau_H0 * omega - 2) / 3) ^ 2))
       + (if tau_H0 < 0.3 \<or> tau_H0 > 6 then 0.1 else 0)
       + (if omega < 0.5 \<or> omega > 6 then 0.1 else 0)"
  by (simp add: variance_before_noise_def Let_def)

lemma variance_attractor_fst:
  "fst (variance_attractor randn tau_H0 omega A g) =
     py_max 0.01 (variance_before_noise tau_H0 omega A + 0.01 * fst (randn g))"
  by (simp add: variance_attractor_def Let_def split: prod.split)

lemma variance_attractor_snd:
  "snd (variance_attractor randn tau_H0 omega A g) = snd (randn g)"
  by (simp add: variance_attractor_def Let_def split: prod.split)

lemma variance_before_noise_bounds:
  "0.03 \<le> variance_before_noise tau_H0 omega A"
  "variance_before_noise tau_H0 omega A < 0.35"
proof -
  define v where "v = exp (- (((tau_H0 * omega - 2) / 3) ^ 2))"
  have v: "0 < v" "v \<le> 1" by (simp_all add: v_def)
  have eq: "variance_before_noise tau_H0 omega A =
     0.15 - 0.12 * v
       + (if tau_H0 < 0.3 \<or> tau_H0 > 6 then 0.1 else 0)
       + (if omega < 0.5 \<or> omega > 6 then 0.1 else 0)"
    unfolding v_def by (rule variance_before_noise_closed)
  show "0.03 \<le> variance_before_noise tau_H0 omega A"
    unfolding eq using v
    by (cases "tau_H0 < 0.3 \<or> tau_H0 > 6"; cases "omega < 0.5 \<or> omega > 6"; simp)
  show "variance_before_noise tau_H0 omega A < 0.35"
    unfolding eq using v
    by (cases "tau_H0 < 0.3 \<or> tau_H0 > 6"; cases "omega < 0.5 \<or> omega > 6"; simp)
qed

text \<open>
  C1. The value of \<^verbatim>\<open>variance\<close> before the noise is added and before the floor is
  \<open>0.15 - 0.12 * exp (- ((tau_H0 * omega - 2) / 3)\<^sup>2)\<close>, plus \<open>0.1\<close> when \<open>tau_H0\<close> is
  outside \<open>[0.3, 6]\<close>, plus another \<open>0.1\<close> when \<open>omega\<close> is outside \<open>[0.5, 6]\<close>; the
  function returns the floor of that value plus the scaled draw; and where
  \<open>tau_H0 * omega = 2\<close> with both parameters inside their ranges the value is \<open>0.03\<close>.
\<close>

theorem variance_attractor_deterministic_component:
  "variance_before_noise tau_H0 omega A =
     0.15 - 0.12 * exp (- (((tau_H0 * omega - 2) / 3) ^ 2))
       + (if tau_H0 < 0.3 \<or> tau_H0 > 6 then 0.1 else 0)
       + (if omega < 0.5 \<or> omega > 6 then 0.1 else 0)
   \<and> fst (variance_attractor randn tau_H0 omega A g) =
       py_max 0.01 (variance_before_noise tau_H0 omega A + 0.01 * fst (randn g))
   \<and> (tau_H0 * omega = 2 \<and> 0.3 \<le> tau_H0 \<and> tau_H0 \<le> 6 \<and> 0.5 \<le> omega \<and> omega \<le> 6
        \<longrightarrow> variance_before_noise tau_H0 omega A = 0.03)"
proof (intro conjI impI)
  show "variance_before_noise tau_H0 omega A =
     0.15 - 0.12 * exp (- (((tau_H0 * omega - 2) / 3) ^ 2))
       + (if tau_H0 < 0.3 \<or> tau_H0 > 6 then 0.1 else 0)
       + (if omega < 0.5 \<or> omega > 6 then 0.1 else 0)"
    by (rule variance_before_noise_closed)
  show "fst (variance_attractor randn tau_H0 omega A g) =
       py_max 0.01 (variance_before_noise tau_H0 omega A + 0.01 * fst (randn g))"
    by (rule variance_attractor_fst)
next
  assume h: "tau_H0 * omega = 2 \<and> 0.3 \<le> tau_H0 \<and> tau_H0 \<le> 6 \<and> 0.5 \<le> omega \<and> omega \<le> 6"
  then have "\<not> (tau_H0 < 0.3 \<or> tau_H0 > 6)" "\<not> (omega < 0.5 \<or> omega > 6)"
    by auto
  with h show "variance_before_noise tau_H0 omega A = 0.03"
    by (simp add: variance_before_noise_closed)
qed

theorem variance_attractor_deterministic_component_witness:
  "(1::real) * 2 = 2 \<and> (0.3::real) \<le> 1 \<and> (1::real) \<le> 6 \<and> (0.5::real) \<le> 2 \<and> (2::real) \<le> 6
   \<and> variance_before_noise 1 2 0.02 = 0.03"
  using variance_attractor_deterministic_component
          [of 1 2 "0.02" "\<lambda>g::nat. (real g, Suc g)" 0]
  by simp

text \<open>
  C2. Whatever the inputs, the amplitude argument and the value drawn for the noise,
  \<^verbatim>\<open>variance_attractor\<close> returns at least \<open>0.01\<close>: never a negative number, never zero.
\<close>

theorem variance_attractor_floor:
  "0.01 \<le> fst (variance_attractor randn tau_H0 omega A g)
   \<and> 0 < fst (variance_attractor randn tau_H0 omega A g)
   \<and> fst (variance_attractor randn tau_H0 omega A g) \<noteq> 0"
proof -
  have "0.01 \<le> fst (variance_attractor randn tau_H0 omega A g)"
    unfolding variance_attractor_fst by (rule py_max_ge)
  then show ?thesis by simp
qed

theorem variance_attractor_floor_witness:
  "0.01 \<le> fst (variance_attractor (\<lambda>g::nat. (- 5, Suc g)) 1 2 0.02 0)"
  using variance_attractor_floor [of "\<lambda>g::nat. (- 5, Suc g)" 1 2 "0.02" 0]
  by (rule conjunct1)

text \<open>
  C9. The amplitude parameter \<open>A\<close> has no effect: two calls that differ only in \<open>A\<close>
  and start from the same generator state (so observe the same draw) return the same
  value and leave the same generator state.
\<close>

theorem variance_attractor_ignores_amplitude:
  "variance_attractor randn tau_H0 omega A1 g = variance_attractor randn tau_H0 omega A2 g"
  by (simp add: variance_attractor_def variance_before_noise_def)

theorem variance_attractor_ignores_amplitude_witness:
  "variance_attractor (\<lambda>g::nat. (real g, Suc g)) 1 2 0.02 0 =
     variance_attractor (\<lambda>g::nat. (real g, Suc g)) 1 2 0.5 0"
  by (rule variance_attractor_ignores_amplitude)

text \<open>
  C10. The value before the noise lies between \<open>0.03\<close> and \<open>0.35\<close> inclusive; so the
  floor changes the returned value only when the noise term is below \<open>- 0.02\<close>.
\<close>

theorem variance_before_noise_range_and_clamp:
  "0.03 \<le> variance_before_noise tau_H0 omega A
   \<and> variance_before_noise tau_H0 omega A \<le> 0.35
   \<and> (fst (variance_attractor randn tau_H0 omega A g)
        \<noteq> variance_before_noise tau_H0 omega A + 0.01 * fst (randn g)
      \<longrightarrow> 0.01 * fst (randn g) < - 0.02)"
proof (intro conjI impI)
  show "0.03 \<le> variance_before_noise tau_H0 omega A"
    by (rule variance_before_noise_bounds)
  show "variance_before_noise tau_H0 omega A \<le> 0.35"
    using variance_before_noise_bounds(2) [of tau_H0 omega A] by simp
next
  assume "fst (variance_attractor randn tau_H0 omega A g)
        \<noteq> variance_before_noise tau_H0 omega A + 0.01 * fst (randn g)"
  then have "variance_before_noise tau_H0 omega A + 0.01 * fst (randn g) < 0.01"
    unfolding variance_attractor_fst py_max_def by (simp split: if_splits)
  with variance_before_noise_bounds(1) [of tau_H0 omega A]
  show "0.01 * fst (randn g) < - 0.02" by simp
qed

theorem variance_before_noise_range_and_clamp_witness:
  "fst (variance_attractor (\<lambda>g::nat. (- 5, Suc g)) 1 2 0.02 0)
     \<noteq> variance_before_noise 1 2 0.02 + 0.01 * (- 5)
   \<and> 0.01 * (- 5 :: real) < - 0.02"
  using variance_before_noise_range_and_clamp [of 1 2 "0.02" "\<lambda>g::nat. (- 5, Suc g)" 0]
  by (simp add: variance_attractor_fst py_max_def variance_before_noise_closed)

subsection \<open>Equation of state and geometric cutoff\<close>

lemma w_z_scalar:
  assumes "- 1 < z" "z_tau \<noteq> 0"
  shows "w_z (PyFloat z) A omega delta z_tau =
     Inr (Float64 (Fin (- 1 + A * exp (- z / z_tau) * cos (omega * ln (1 + z) + delta))))"
  using assms by (simp add: py_truediv_def w_z_of_quotient_def)

lemma sigmoid_denominator: "1 + exp (x::real) \<noteq> 0" "0 < 1 + exp x"
  using exp_gt_zero [of x] by linarith+

lemma S_z_elem:
  assumes "Delta_z \<noteq> 0"
  shows "S_z_of_quotient (np_div (Fin (z - z_c)) (Fin Delta_z)) = Fin (1 / (1 + exp ((z - z_c) / Delta_z)))"
  using assms sigmoid_denominator(1) [of "(z - z_c) / Delta_z"]
  by (simp add: S_z_of_quotient_def)

lemma S_z_scalar:
  assumes "Delta_z \<noteq> 0"
  shows "S_z (PyFloat z) z_c Delta_z = Inr (Float64 (Fin (1 / (1 + exp ((z - z_c) / Delta_z)))))"
  using assms sigmoid_denominator(1) [of "(z - z_c) / Delta_z"]
  by (simp add: py_truediv_def S_z_of_quotient_def)

lemma S_z_array:
  assumes "Delta_z \<noteq> 0"
  shows "S_z (NdArray zs) z_c Delta_z = Inr (Array (map (\<lambda>z. Fin (1 / (1 + exp ((z - z_c) / Delta_z)))) zs))"
proof -
  have "map (\<lambda>z. S_z_of_quotient (np_div (Fin (z - z_c)) (Fin Delta_z))) zs =
        map (\<lambda>z. Fin (1 / (1 + exp ((z - z_c) / Delta_z)))) zs"
    by (rule map_cong [OF refl]) (rule S_z_elem [OF assms])
  then show ?thesis by (simp only: S_z.simps)
qed

lemma sigmoid_strict_antimono:
  fixes z1 z2 :: real
  assumes "0 < d" "z1 < z2"
  shows "1 / (1 + exp ((z2 - c) / d)) < 1 / (1 + exp ((z1 - c) / d))"
proof -
  have "(z1 - c) / d < (z2 - c) / d"
    using assms by (simp add: divide_strict_right_mono)
  then have "1 + exp ((z1 - c) / d) < 1 + exp ((z2 - c) / d)" by simp
  then show ?thesis
    using sigmoid_denominator(2) [of "(z1 - c) / d"] sigmoid_denominator(2) [of "(z2 - c) / d"]
    by (simp add: frac_less2)
qed

text \<open>
  C6. For every redshift, every center and every non-zero width, \<^verbatim>\<open>S_z\<close> returns
  \<open>1 / (1 + exp ((z - z_c) / Delta_z))\<close>; at the center the value is one half, in
  particular \<^verbatim>\<open>S_z(4.0, 4.0, 0.5)\<close> is \<open>0.5\<close>.
\<close>

theorem S_z_formula:
  "Delta_z \<noteq> 0 \<longrightarrow>
     S_z (PyFloat z) z_c Delta_z = Inr (Float64 (Fin (1 / (1 + exp ((z - z_c) / Delta_z)))))
   \<and> S_z (NdArray zs) z_c Delta_z =
       Inr (Array (map (\<lambda>x. Fin (1 / (1 + exp ((x - z_c) / Delta_z)))) zs))
   \<and> S_z (PyFloat z_c) z_c Delta_z = Inr (Float64 (Fin 0.5))
   \<and> S_z (PyFloat 4.0) 4.0 0.5 = Inr (Float64 (Fin 0.5))"
proof (intro impI conjI)
  assume h: "Delta_z \<noteq> 0"
  show "S_z (PyFloat z) z_c Delta_z = Inr (Float64 (Fin (1 / (1 + exp ((z - z_c) / Delta_z)))))"
    using h by (rule S_z_scalar)
  show "S_z (NdArray zs) z_c Delta_z =
       Inr (Array (map (\<lambda>x. Fin (1 / (1 + exp ((x - z_c) / Delta_z)))) zs))"
    using h by (rule S_z_array)
  show "S_z (PyFloat z_c) z_c Delta_z = Inr (Float64 (Fin 0.5))"
    using S_z_scalar [OF h, of z_c z_c] by simp
  have "S_z (PyFloat 4.0) 4.0 0.5 = Inr (Float64 (Fin (1 / (1 + exp ((4.0 - 4.0) / 0.5)))))"
    by (rule S_z_scalar) simp
  then show "S_z (PyFloat 4.0) 4.0 0.5 = Inr (Float64 (Fin 0.5))"
    by simp
qed

theorem S_z_formula_witness:
  "(0.5::real) \<noteq> 0
   \<and> S_z (PyFloat 5) 4 0.5 = Inr (Float64 (Fin (1 / (1 + exp 2))))
   \<and> S_z (NdArray [4, 5]) 4 0.5 = Inr (Array [Fin 0.5, Fin (1 / (1 + exp 2))])"
  using S_z_formula [of "0.5" 5 4 "[4, 5]"]
  by simp

subsection \<open>Equation of state on the binary64 range\<close>

lemma b64_max_bounds: "1000 \<le> b64_max" "b64_max < 2 ^ 1024"
proof -
  have "(1::real) \<le> 2 ^ 971" by (rule one_le_power) simp
  then have "(2 ^ 53 - 1) * (1::real) \<le> (2 ^ 53 - 1) * 2 ^ 971"
    by (intro mult_left_mono) simp_all
  then show "1000 \<le> b64_max" by (simp add: b64_max_def)
  have "(2 ^ 53 - 1) * (2::real) ^ 971 < 2 ^ 53 * 2 ^ 971"
    by (intro mult_strict_right_mono) simp_all
  also have "\<dots> = 2 ^ 1024" by (simp flip: power_add)
  finally show "b64_max < 2 ^ 1024" by (simp add: b64_max_def)
qed

lemma b64_range_Fin: "\<bar>x\<bar> \<le> b64_max \<Longrightarrow> b64_range x = Fin x"
  by (auto simp: b64_range_def)

lemma exp_overflows:
  fixes x :: real
  assumes "1024 \<le> x"
  shows "b64_max < exp x"
proof -
  have "(2::real) \<le> exp 1" using exp_ge_add_one_self [of "1::real"] by simp
  then have "(2::real) ^ 1024 \<le> exp 1 ^ 1024" by (intro power_mono) simp_all
  also have "\<dots> = exp (of_nat 1024 * 1)" by (simp only: exp_of_nat_mult)
  also have "\<dots> \<le> exp x" using assms by simp
  finally show ?thesis using b64_max_bounds(2) by linarith
qed

lemma w_z_of_quotient_b64_in_range:
  assumes "- 1 < z" "z_tau \<noteq> 0" "w_z_in_range z A omega delta z_tau"
  shows "w_z_of_quotient_b64 (in_b64 (np_div (Fin (- z)) (Fin z_tau))) z A omega delta =
     Fin (- 1 + A * exp (- z / z_tau) * cos (omega * ln (1 + z) + delta))"
proof -
  from assms(3) have r:
    "\<bar>- z / z_tau\<bar> \<le> b64_max" "\<bar>exp (- z / z_tau)\<bar> \<le> b64_max"
    "\<bar>A * exp (- z / z_tau)\<bar> \<le> b64_max" "\<bar>1 + z\<bar> \<le> b64_max"
    "\<bar>omega * ln (1 + z)\<bar> \<le> b64_max" "\<bar>omega * ln (1 + z) + delta\<bar> \<le> b64_max"
    "\<bar>A * exp (- z / z_tau) * cos (omega * ln (1 + z) + delta)\<bar> \<le> b64_max"
    "\<bar>- 1 + A * exp (- z / z_tau) * cos (omega * ln (1 + z) + delta)\<bar> \<le> b64_max"
    by (simp_all add: w_z_in_range_def Let_def)
  have q: "in_b64 (np_div (Fin (- z)) (Fin z_tau)) = Fin (- z / z_tau)"
    using assms(2) b64_range_Fin [OF r(1)] by simp
  have l: "np_log (b64_range (1 + z)) = Fin (ln (1 + z))"
    using assms(1) b64_range_Fin [OF r(4)] by simp
  have 1: "in_b64 (np_exp (Fin (- z / z_tau))) = Fin (exp (- z / z_tau))"
    using b64_range_Fin [OF r(2)] by simp
  have 2: "in_b64 (np_mul (Fin A) (Fin (exp (- z / z_tau)))) = Fin (A * exp (- z / z_tau))"
    using b64_range_Fin [OF r(3)] by simp
  have 3: "in_b64 (np_mul (Fin omega) (Fin (ln (1 + z)))) = Fin (omega * ln (1 + z))"
    using b64_range_Fin [OF r(5)] by simp
  have 4: "in_b64 (np_add (Fin (omega * ln (1 + z))) (Fin delta)) =
      Fin (omega * ln (1 + z) + delta)"
    using b64_range_Fin [OF r(6)] by simp
  have 5: "in_b64 (np_mul (Fin (A * exp (- z / z_tau)))
        (np_cos (Fin (omega * ln (1 + z) + delta)))) =
      Fin (A * exp (- z / z_tau) * cos (omega * ln (1 + z) + delta))"
    using b64_range_Fin [OF r(7)] by simp
  have 6: "in_b64 (np_add (Fin (- 1.0))
        (Fin (A * exp (- z / z_tau) * cos (omega * ln (1 + z) + delta)))) =
      Fin (- 1 + A * exp (- z / z_tau) * cos (omega * ln (1 + z) + delta))"
    using b64_range_Fin [OF r(8)] by simp
  show ?thesis
    unfolding w_z_of_quotient_b64_def by (simp only: q l 1 2 3 4 5 6)
qed

lemma w_z_b64_scalar:
  assumes "- 1 < z" "z_tau \<noteq> 0" "w_z_in_range z A omega delta z_tau"
  shows "w_z_b64 (PyFloat z) A omega delta z_tau =
     Inr (Float64 (Fin (- 1 + A * exp (- z / z_tau) * cos (omega * ln (1 + z) + delta))))"
  using assms(2) w_z_of_quotient_b64_in_range [OF assms]
  by (simp add: py_truediv_b64_def)






text \<open>Where nothing overflows the two readings of line 39 agree.\<close>

lemma w_z_b64_agrees:
  assumes "- 1 < z" "z_tau \<noteq> 0" "w_z_in_range z A omega delta z_tau"
  shows "w_z_b64 (PyFloat z) A omega delta z_tau = w_z (PyFloat z) A omega delta z_tau"
  by (simp only: w_z_b64_scalar [OF assms] w_z_scalar [OF assms(1,2)])




subsection \<open>Geometric cutoff on the binary64 range\<close>

lemma sigmoid_unit_interval:
  fixes x :: real
  shows "0 \<le> 1 / (1 + exp x)" "1 / (1 + exp x) \<le> 1"
proof -
  have p: "0 < 1 + exp x" using exp_gt_zero [of x] by linarith
  then show "0 \<le> 1 / (1 + exp x)" by simp
  have "1 \<le> 1 + exp x" using exp_gt_zero [of x] by linarith
  then have "1 / (1 + exp x) \<le> 1 / 1" by (intro frac_le) simp_all
  then show "1 / (1 + exp x) \<le> 1" by (simp only: div_by_1)
qed

lemma S_z_of_quotient_b64_cases:
  "S_z_of_quotient_b64 PInf = Fin 0"
  "S_z_of_quotient_b64 NInf = Fin 1"
  "S_z_of_quotient_b64 (Fin x) = Fin (if b64_max < 1 + exp x then 0 else 1 / (1 + exp x))"
proof -
  have M: "1000 \<le> b64_max" by (rule b64_max_bounds)
  show "S_z_of_quotient_b64 PInf = Fin 0"
    using M by (simp add: S_z_of_quotient_b64_def b64_range_def)
  show "S_z_of_quotient_b64 NInf = Fin 1"
    using M by (simp add: S_z_of_quotient_b64_def b64_range_def)
  show "S_z_of_quotient_b64 (Fin x) = Fin (if b64_max < 1 + exp x then 0 else 1 / (1 + exp x))"
  proof (cases "b64_max < exp x")
    case True
    then have "b64_max < 1 + exp x" by simp
    with True M show ?thesis
      by (simp add: S_z_of_quotient_b64_def b64_range_def)
  next
    case False
    have "\<not> exp x < - b64_max" using M exp_gt_zero [of x] by linarith
    with False have e: "in_b64 (np_exp (Fin x)) = Fin (exp x)"
      by (simp add: b64_range_def)
    show ?thesis
    proof (cases "b64_max < 1 + exp x")
      case True
      with M show ?thesis
        unfolding S_z_of_quotient_b64_def e by (simp add: b64_range_def)
    next
      case False
      have "\<not> 1 + exp x < - b64_max" using M exp_gt_zero [of x] by linarith
      with False have s: "in_b64 (np_add (Fin 1.0) (Fin (exp x))) = Fin (1 + exp x)"
        by (simp add: b64_range_def)
      have "\<bar>1 / (1 + exp x)\<bar> \<le> b64_max"
        using sigmoid_unit_interval [of x] M by simp
      then have "in_b64 (np_div (Fin 1.0) (Fin (1 + exp x))) = Fin (1 / (1 + exp x))"
        using sigmoid_denominator(1) [of x] b64_range_Fin [of "1 / (1 + exp x)"] by simp
      with False show ?thesis
        unfolding S_z_of_quotient_b64_def e s by simp
    qed
  qed
qed

lemma quotient_b64_cases:
  assumes "0 < Delta_z"
  shows "in_b64 (np_div (b64_range d) (Fin Delta_z)) =
     (if b64_max < d \<or> b64_max < d / Delta_z then PInf
      else if d < - b64_max \<or> d / Delta_z < - b64_max then NInf
      else Fin (d / Delta_z))"
proof -
  have M: "1000 \<le> b64_max" by (rule b64_max_bounds)
  consider "b64_max < d" | "d < - b64_max" | "\<bar>d\<bar> \<le> b64_max" by linarith
  then show ?thesis
  proof cases
    case 1
    with assms show ?thesis by (simp add: b64_range_def)
  next
    case 2
    then have "d < 0" using M by linarith
    then have "d / Delta_z < 0" using assms by (simp add: divide_neg_pos)
    with 2 assms M show ?thesis by (simp add: b64_range_def)
  next
    case 3
    then have "b64_range d = Fin d" by (rule b64_range_Fin)
    with 3 assms show ?thesis by (auto simp: b64_range_def)
  qed
qed

lemma S_z_b64_scalar:
  assumes "0 < Delta_z"
  shows "S_z_b64 (PyFloat z) z_c Delta_z =
     Inr (Float64 (Fin
       (if b64_max < z - z_c \<or> b64_max < (z - z_c) / Delta_z then 0
        else if z - z_c < - b64_max \<or> (z - z_c) / Delta_z < - b64_max then 1
        else if b64_max < 1 + exp ((z - z_c) / Delta_z) then 0
        else 1 / (1 + exp ((z - z_c) / Delta_z)))))"
  using assms
  by (simp add: py_truediv_b64_def quotient_b64_cases [OF assms] S_z_of_quotient_b64_cases)

lemma S_val_antimono:
  assumes "0 < Delta_z" "z1 < z2"
  shows "S_val z_c Delta_z z2 \<le> S_val z_c Delta_z z1"
proof -
  have M: "1000 \<le> b64_max" by (rule b64_max_bounds)
  have d: "z1 - z_c < z2 - z_c" using assms(2) by simp
  have x: "(z1 - z_c) / Delta_z < (z2 - z_c) / Delta_z"
    using assms by (simp add: divide_strict_right_mono)
  then have e: "1 + exp ((z1 - z_c) / Delta_z) < 1 + exp ((z2 - z_c) / Delta_z)" by simp
  have s: "1 / (1 + exp ((z2 - z_c) / Delta_z)) \<le> 1 / (1 + exp ((z1 - z_c) / Delta_z))"
    using sigmoid_strict_antimono [OF assms, of z_c] by (rule less_imp_le)
  note u1 = sigmoid_unit_interval [of "(z1 - z_c) / Delta_z"]
  note u2 = sigmoid_unit_interval [of "(z2 - z_c) / Delta_z"]
  show ?thesis
    unfolding S_val_def using M d x e s u1 u2 by (auto simp del: exp_le_cancel_iff exp_less_cancel_iff)
qed

lemma S_val_overflow:
  assumes "0 < Delta_z" "b64_max < exp ((z - z_c) / Delta_z)"
  shows "S_val z_c Delta_z z = 0"
proof -
  have M: "1000 \<le> b64_max" by (rule b64_max_bounds)
  then have "1 < exp ((z - z_c) / Delta_z)" using assms(2) by linarith
  then have x: "0 < (z - z_c) / Delta_z" by (simp only: one_less_exp_iff)
  then have d: "0 < z - z_c" using assms(1) by (simp add: zero_less_divide_iff)
  show ?thesis
    unfolding S_val_def using M x d assms(2) by auto
qed

lemma S_val_at_top: "(S_val z_c Delta_z \<longlongrightarrow> 0) at_top"
proof (rule tendsto_eventually)
  have "\<forall>\<^sub>F z in at_top. z_c + b64_max < z" by (rule eventually_gt_at_top)
  then show "\<forall>\<^sub>F z in at_top. S_val z_c Delta_z z = 0"
    by eventually_elim (simp add: S_val_def)
qed

lemma S_val_at_bot:
  assumes "0 < Delta_z"
  shows "(S_val z_c Delta_z \<longlongrightarrow> 1) at_bot"
proof (rule tendsto_eventually)
  have M: "1000 \<le> b64_max" by (rule b64_max_bounds)
  have "\<forall>\<^sub>F z in at_bot. z < z_c - b64_max" by (rule eventually_gt_at_bot)
  then show "\<forall>\<^sub>F z in at_bot. S_val z_c Delta_z z = 1"
  proof eventually_elim
    case (elim z)
    then have d: "z - z_c < - b64_max" by simp
    then have "z - z_c < 0" using M by linarith
    then have "(z - z_c) / Delta_z < 0" using assms by (simp add: divide_neg_pos)
    with d M show ?case by (simp add: S_val_def)
  qed
qed

text \<open>
  C7 as stated fails where the exponential overflows: with center 4 and width 0.5 the
  function returns \<open>0.0\<close> at both \<open>z = 1000\<close> and \<open>z = 2000\<close>.
\<close>

theorem S_z_plateau_counterexample:
  "(0::real) < 0.5 \<and> (1000::real) < 2000
   \<and> S_z_b64 (PyFloat 1000) 4.0 0.5 = Inr (Float64 (Fin 0))
   \<and> S_z_b64 (PyFloat 2000) 4.0 0.5 = Inr (Float64 (Fin 0))"
proof -
  have "b64_max < exp ((1000 - 4.0) / 0.5 :: real)" by (rule exp_overflows) simp
  then have 1: "S_val 4.0 0.5 1000 = 0" by (intro S_val_overflow) simp_all
  have "b64_max < exp ((2000 - 4.0) / 0.5 :: real)" by (rule exp_overflows) simp
  then have 2: "S_val 4.0 0.5 2000 = 0" by (intro S_val_overflow) simp_all
  have a: "S_z_b64 (PyFloat z) 4.0 0.5 = Inr (Float64 (Fin (S_val 4.0 0.5 z)))" for z
    using S_z_b64_scalar [of "0.5" z "4.0"] by (simp add: S_val_def)
  show ?thesis
    using a [of 1000] a [of 2000] 1 2 by simp
qed

text \<open>
  C7, as amended. For a fixed center and a positive width, \<^verbatim>\<open>S_z\<close> as a function of
  \<open>z\<close> is monotonically non-increasing (not strictly: it is \<open>0\<close> wherever the
  exponential overflows), tends to \<open>1\<close> as \<open>z\<close> tends to minus infinity and to \<open>0\<close>
  as \<open>z\<close> tends to plus infinity.
\<close>

theorem S_z_nonincreasing_with_limits:
  "0 < Delta_z \<longrightarrow>
     (\<exists>f. (\<forall>z. S_z_b64 (PyFloat z) z_c Delta_z = Inr (Float64 (Fin (f z))))
        \<and> (\<forall>z1 z2. z1 < z2 \<longrightarrow> f z2 \<le> f z1)
        \<and> (\<forall>z. b64_max < exp ((z - z_c) / Delta_z) \<longrightarrow> f z = 0)
        \<and> (f \<longlongrightarrow> 1) at_bot
        \<and> (f \<longlongrightarrow> 0) at_top)"
proof
  assume h: "0 < Delta_z"
  have a: "\<forall>z. S_z_b64 (PyFloat z) z_c Delta_z = Inr (Float64 (Fin (S_val z_c Delta_z z)))"
    using S_z_b64_scalar [OF h] by (simp add: S_val_def)
  have b: "\<forall>z1 z2. z1 < z2 \<longrightarrow> S_val z_c Delta_z z2 \<le> S_val z_c Delta_z z1"
    using S_val_antimono [OF h] by blast
  have c: "\<forall>z. b64_max < exp ((z - z_c) / Delta_z) \<longrightarrow> S_val z_c Delta_z z = 0"
    using S_val_overflow [OF h] by blast
  have d: "(S_val z_c Delta_z \<longlongrightarrow> 1) at_bot"
    using h by (rule S_val_at_bot)
  have e: "(S_val z_c Delta_z \<longlongrightarrow> 0) at_top"
    by (rule S_val_at_top)
  show "\<exists>f. (\<forall>z. S_z_b64 (PyFloat z) z_c Delta_z = Inr (Float64 (Fin (f z))))
        \<and> (\<forall>z1 z2. z1 < z2 \<longrightarrow> f z2 \<le> f z1)
        \<and> (\<forall>z. b64_max < exp ((z - z_c) / Delta_z) \<longrightarrow> f z = 0)
        \<and> (f \<longlongrightarrow> 1) at_bot
        \<and> (f \<longlongrightarrow> 0) at_top"
    by (rule exI [of _ "S_val z_c Delta_z"]) (intro conjI a b c d e)
qed

theorem S_z_nonincreasing_with_limits_witness:
  "(0::real) < 0.5
   \<and> (\<exists>f. (\<forall>z. S_z_b64 (PyFloat z) 4 0.5 = Inr (Float64 (Fin (f z))))
        \<and> (\<forall>z1 z2. z1 < z2 \<longrightarrow> f z2 \<le> f z1)
        \<and> (\<forall>z. b64_max < exp ((z - 4) / 0.5) \<longrightarrow> f z = 0)
        \<and> (f \<longlongrightarrow> 1) at_bot
        \<and> (f \<longlongrightarrow> 0) at_top)"
  using S_z_nonincreasing_with_limits [of "0.5" 4]
  by simp

text \<open>
  C8 as stated fails on an array: numpy's division by zero gives an infinity, and both
  functions return a value.
\<close>

theorem zero_scale_array_counterexample:
  "w_z (NdArray [1]) 0.02 2.5 0 0 = Inr (Array [Fin (- 1)])
   \<and> w_z (NdArray [1]) 0.02 2.5 0 0 \<noteq> Inl ZeroDivisionError
   \<and> S_z (NdArray [5]) 4 0 = Inr (Array [Fin 0])
   \<and> S_z (NdArray [5]) 4 0 \<noteq> Inl ZeroDivisionError"
  by (simp add: w_z_of_quotient_def S_z_of_quotient_def signed_inf_def)

text \<open>
  C8, as amended. With \<open>z\<close> a built-in number, \<^verbatim>\<open>w_z\<close> with \<open>z_tau = 0\<close> and
  \<^verbatim>\<open>S_z\<close> with \<open>Delta_z = 0\<close> raise \<^verbatim>\<open>ZeroDivisionError\<close>. With \<open>z\<close> a numpy
  array, as in every call the script makes, no exception is raised: an array of the
  same length is returned.
\<close>

theorem zero_scale_division:
  "w_z (PyFloat z) A omega delta 0 = Inl ZeroDivisionError
   \<and> S_z (PyFloat z) z_c 0 = Inl ZeroDivisionError
   \<and> (\<exists>ys. w_z (NdArray zs) A omega delta 0 = Inr (Array ys) \<and> length ys = length zs)
   \<and> (\<exists>ys. S_z (NdArray zs) z_c 0 = Inr (Array ys) \<and> length ys = length zs)"
  by (simp add: py_truediv_def)

theorem zero_scale_division_witness:
  "w_z (PyFloat 1) 0.02 2.5 0 0 = Inl ZeroDivisionError
   \<and> S_z (PyFloat 1) 4 0 = Inl ZeroDivisionError"
  using zero_scale_division [of 1 "0.02" "2.5" 0 4 "[]"]
  by simp

subsection \<open>Grid evaluation\<close>

lemma advance_add: "advance randn (a + b) g = advance randn b (advance randn a g)"
  by (induction a arbitrary: g) simp_all

lemma inner_loop_step:
  assumes "shape TAU = (n, m)" "shape OMEGA = (n, m)" "shape V = (n, m)" "i < n" "k < m"
  shows "inner_loop randn TAU OMEGA i [k..<m] V g =
     inner_loop randn TAU OMEGA i [Suc k..<m]
       (V\<lparr>cells := (cells V)[i := (cells V ! i)
          [k := fst (variance_attractor randn (cells TAU ! i ! k) (cells OMEGA ! i ! k) 0.02 g)]]\<rparr>)
       (snd (randn g))"
  using assms
  by (simp add: upt_conv_Cons getitem_def setitem_def case_prod_beta variance_attractor_snd)

lemma inner_loop_fills:
  assumes "shape TAU = (n, m)" "shape OMEGA = (n, m)" "i < n"
  shows "shape V = (n, m) \<Longrightarrow> length (cells V) = n \<Longrightarrow> \<forall>r<n. length (cells V ! r) = m \<Longrightarrow> k \<le> m \<Longrightarrow>
    \<exists>V'. inner_loop randn TAU OMEGA i [k..<m] V g = Inr (V', advance randn (m - k) g)
      \<and> shape V' = (n, m) \<and> length (cells V') = n \<and> (\<forall>r<n. length (cells V' ! r) = m)
      \<and> (\<forall>r<n. \<forall>c<m. cells V' ! r ! c =
            (if r = i \<and> k \<le> c
             then fst (variance_attractor randn (cells TAU ! i ! c) (cells OMEGA ! i ! c) 0.02
                        (advance randn (c - k) g))
             else cells V ! r ! c))"
proof (induction "m - k" arbitrary: k V g)
  case 0
  then have "k = m" by simp
  with 0 show ?case by simp
next
  case (Suc d)
  then have km: "k < m" and d: "d = m - Suc k" by simp_all
  define v where "v = fst (variance_attractor randn (cells TAU ! i ! k) (cells OMEGA ! i ! k) 0.02 g)"
  define V1 where "V1 = V\<lparr>cells := (cells V)[i := (cells V ! i)[k := v]]\<rparr>"
  have step: "inner_loop randn TAU OMEGA i [k..<m] V g =
      inner_loop randn TAU OMEGA i [Suc k..<m] V1 (snd (randn g))"
    unfolding V1_def v_def
    using assms(1,2) Suc.prems(1) assms(3) km by (rule inner_loop_step)
  have V1_shape: "shape V1 = (n, m)" using Suc.prems(1) by (simp add: V1_def)
  have V1_len: "length (cells V1) = n" using Suc.prems(2) by (simp add: V1_def)
  have V1_rows: "\<forall>r<n. length (cells V1 ! r) = m"
    using Suc.prems(2,3) assms(3) by (auto simp: V1_def nth_list_update)
  have V1_cells: "\<forall>r<n. \<forall>c<m. cells V1 ! r ! c = (if r = i \<and> c = k then v else cells V ! r ! c)"
    using Suc.prems(2,3) assms(3) by (auto simp: V1_def nth_list_update)
  have km': "Suc k \<le> m" using km by simp
  from Suc.hyps(1) [OF d V1_shape V1_len V1_rows km', of "snd (randn g)"]
  obtain V' where V':
    "inner_loop randn TAU OMEGA i [Suc k..<m] V1 (snd (randn g)) =
       Inr (V', advance randn (m - Suc k) (snd (randn g)))"
    "shape V' = (n, m)" "length (cells V') = n" "\<forall>r<n. length (cells V' ! r) = m"
    "\<forall>r<n. \<forall>c<m. cells V' ! r ! c =
            (if r = i \<and> Suc k \<le> c
             then fst (variance_attractor randn (cells TAU ! i ! c) (cells OMEGA ! i ! c) 0.02
                        (advance randn (c - Suc k) (snd (randn g))))
             else cells V1 ! r ! c)"
    by blast
  have "m - k = Suc (m - Suc k)" using km by arith
  then have adv: "advance randn (m - Suc k) (snd (randn g)) = advance randn (m - k) g"
    by (simp only: advance.simps(2))
  have cells': "\<forall>r<n. \<forall>c<m. cells V' ! r ! c =
            (if r = i \<and> k \<le> c
             then fst (variance_attractor randn (cells TAU ! i ! c) (cells OMEGA ! i ! c) 0.02
                        (advance randn (c - k) g))
             else cells V ! r ! c)"
  proof (intro allI impI)
    fix r c assume rc: "r < n" "c < m"
    show "cells V' ! r ! c =
            (if r = i \<and> k \<le> c
             then fst (variance_attractor randn (cells TAU ! i ! c) (cells OMEGA ! i ! c) 0.02
                        (advance randn (c - k) g))
             else cells V ! r ! c)"
    proof (cases "r = i \<and> Suc k \<le> c")
      case True
      then have "c - k = Suc (c - Suc k)" by arith
      then have "advance randn (c - Suc k) (snd (randn g)) = advance randn (c - k) g"
        by (simp only: advance.simps(2))
      with True V'(5) rc show ?thesis by simp
    next
      case False
      with V'(5) V1_cells rc show ?thesis by (auto simp: v_def not_less_eq_eq)
    qed
  qed
  show ?case
    using step V'(1-4) adv cells' by simp
qed

lemma outer_loop_step:
  assumes "shape TAU = (n, m)" "k < n"
    "inner_loop randn TAU OMEGA k [0..<m] V g = Inr (V1, g1)"
  shows "outer_loop randn TAU OMEGA [k..<n] V g = outer_loop randn TAU OMEGA [Suc k..<n] V1 g1"
  using assms by (simp add: upt_conv_Cons)

lemma outer_loop_fills:
  assumes "shape TAU = (n, m)" "shape OMEGA = (n, m)"
  shows "shape V = (n, m) \<Longrightarrow> length (cells V) = n \<Longrightarrow> \<forall>r<n. length (cells V ! r) = m \<Longrightarrow> k \<le> n \<Longrightarrow>
    \<exists>V'. outer_loop randn TAU OMEGA [k..<n] V g = Inr (V', advance randn ((n - k) * m) g)
      \<and> shape V' = (n, m) \<and> length (cells V') = n \<and> (\<forall>r<n. length (cells V' ! r) = m)
      \<and> (\<forall>r<n. \<forall>c<m. cells V' ! r ! c =
            (if k \<le> r
             then fst (variance_attractor randn (cells TAU ! r ! c) (cells OMEGA ! r ! c) 0.02
                        (advance randn ((r - k) * m + c) g))
             else cells V ! r ! c))"
proof (induction "n - k" arbitrary: k V g)
  case 0
  then have "k = n" by simp
  with 0 show ?case by simp
next
  case (Suc d)
  then have kn: "k < n" and d: "d = n - Suc k" by simp_all
  from inner_loop_fills [OF assms kn Suc.prems(1,2,3), of 0 randn g]
  obtain V1 where V1:
    "inner_loop randn TAU OMEGA k [0..<m] V g = Inr (V1, advance randn (m - 0) g)"
    "shape V1 = (n, m)" "length (cells V1) = n" "\<forall>r<n. length (cells V1 ! r) = m"
    "\<forall>r<n. \<forall>c<m. cells V1 ! r ! c =
            (if r = k \<and> 0 \<le> c
             then fst (variance_attractor randn (cells TAU ! k ! c) (cells OMEGA ! k ! c) 0.02
                        (advance randn (c - 0) g))
             else cells V ! r ! c)"
    by blast
  have step: "outer_loop randn TAU OMEGA [k..<n] V g =
      outer_loop randn TAU OMEGA [Suc k..<n] V1 (advance randn (m - 0) g)"
    using assms(1) kn V1(1) by (rule outer_loop_step)
  have kn': "Suc k \<le> n" using kn by simp
  from Suc.hyps(1) [OF d V1(2,3,4) kn', of "advance randn (m - 0) g"]
  obtain V' where V':
    "outer_loop randn TAU OMEGA [Suc k..<n] V1 (advance randn (m - 0) g) =
       Inr (V', advance randn ((n - Suc k) * m) (advance randn (m - 0) g))"
    "shape V' = (n, m)" "length (cells V') = n" "\<forall>r<n. length (cells V' ! r) = m"
    "\<forall>r<n. \<forall>c<m. cells V' ! r ! c =
            (if Suc k \<le> r
             then fst (variance_attractor randn (cells TAU ! r ! c) (cells OMEGA ! r ! c) 0.02
                        (advance randn ((r - Suc k) * m + c) (advance randn (m - 0) g)))
             else cells V1 ! r ! c)"
    by blast
  have "n - k = Suc (n - Suc k)" using kn by arith
  then have "(n - k) * m = m + (n - Suc k) * m" by (simp only: mult_Suc)
  then have adv: "advance randn ((n - Suc k) * m) (advance randn (m - 0) g) =
      advance randn ((n - k) * m) g"
    by (simp add: advance_add)
  have cells': "\<forall>r<n. \<forall>c<m. cells V' ! r ! c =
            (if k \<le> r
             then fst (variance_attractor randn (cells TAU ! r ! c) (cells OMEGA ! r ! c) 0.02
                        (advance randn ((r - k) * m + c) g))
             else cells V ! r ! c)"
  proof (intro allI impI)
    fix r c assume rc: "r < n" "c < m"
    show "cells V' ! r ! c =
            (if k \<le> r
             then fst (variance_attractor randn (cells TAU ! r ! c) (cells OMEGA ! r ! c) 0.02
                        (advance randn ((r - k) * m + c) g))
             else cells V ! r ! c)"
    proof (cases "Suc k \<le> r")
      case True
      then have "r - k = Suc (r - Suc k)" by arith
      then have "(r - k) * m + c = m + ((r - Suc k) * m + c)"
        by (simp only: mult_Suc add.assoc)
      then have "advance randn ((r - Suc k) * m + c) (advance randn (m - 0) g) =
          advance randn ((r - k) * m + c) g"
        by (simp add: advance_add)
      with True V'(5) rc show ?thesis by simp
    next
      case False
      with V'(5) V1(5) rc show ?thesis by (auto simp: not_less_eq_eq)
    qed
  qed
  show ?case
    using step V'(1-4) adv cells' by simp
qed

lemma meshgrid_shape:
  "shape (fst (meshgrid xs ys)) = (length ys, length xs)"
  "shape (snd (meshgrid xs ys)) = (length ys, length xs)"
  by (simp_all add: meshgrid_def)

lemma meshgrid_cells:
  assumes "i < length ys" "j < length xs"
  shows "cells (fst (meshgrid xs ys)) ! i ! j = xs ! j"
    and "cells (snd (meshgrid xs ys)) ! i ! j = ys ! i"
  using assms by (simp_all add: meshgrid_def)

lemma variance_grid_spec:
  "\<exists>V. variance_grid seed randn tau_H0_vals omega_vals g0 =
          Inr (V, advance randn (length omega_vals * length tau_H0_vals) (seed 42))
     \<and> shape V = (length omega_vals, length tau_H0_vals)
     \<and> length (cells V) = length omega_vals
     \<and> (\<forall>i<length omega_vals. length (cells V ! i) = length tau_H0_vals)
     \<and> (\<forall>i<length omega_vals. \<forall>j<length tau_H0_vals. cells V ! i ! j =
          fst (variance_attractor randn (tau_H0_vals ! j) (omega_vals ! i) 0.02
                 (advance randn (i * length tau_H0_vals + j) (seed 42))))"
proof -
  define n where "n = length omega_vals"
  define m where "m = length tau_H0_vals"
  define TAU where "TAU = fst (meshgrid tau_H0_vals omega_vals)"
  define OMEGA where "OMEGA = snd (meshgrid tau_H0_vals omega_vals)"
  have sh: "shape TAU = (n, m)" "shape OMEGA = (n, m)"
    by (simp_all add: TAU_def OMEGA_def n_def m_def meshgrid_shape)
  have z: "shape (zeros_like TAU) = (n, m)" "length (cells (zeros_like TAU)) = n"
    "\<forall>r<n. length (cells (zeros_like TAU) ! r) = m"
    using sh(1) by (simp_all add: zeros_like_def)
  have unfold: "variance_grid seed randn tau_H0_vals omega_vals g0 =
      outer_loop randn TAU OMEGA [0..<n] (zeros_like TAU) (seed 42)"
    using sh(1) by (simp add: variance_grid_def TAU_def OMEGA_def case_prod_beta Let_def)
  from outer_loop_fills [OF sh z, of 0 randn "seed 42"]
  obtain V where V:
    "outer_loop randn TAU OMEGA [0..<n] (zeros_like TAU) (seed 42) =
       Inr (V, advance randn ((n - 0) * m) (seed 42))"
    "shape V = (n, m)" "length (cells V) = n" "\<forall>r<n. length (cells V ! r) = m"
    "\<forall>r<n. \<forall>c<m. cells V ! r ! c =
            (if 0 \<le> r
             then fst (variance_attractor randn (cells TAU ! r ! c) (cells OMEGA ! r ! c) 0.02
                        (advance randn ((r - 0) * m + c) (seed 42)))
             else cells (zeros_like TAU) ! r ! c)"
    by blast
  have cells: "\<forall>i<n. \<forall>j<m. cells V ! i ! j =
          fst (variance_attractor randn (tau_H0_vals ! j) (omega_vals ! i) 0.02
                 (advance randn (i * m + j) (seed 42)))"
    using V(5) by (simp add: TAU_def OMEGA_def n_def m_def meshgrid_cells)
  show ?thesis
    unfolding n_def [symmetric] m_def [symmetric]
    using unfold V(1-4) cells by simp
qed

lemma length_linspace: "length (linspace start stop num) = num"
  by (simp add: linspace_def)

text \<open>The script's own grid: an 80 by 80 array after 6400 draws.\<close>

lemma plot_resilience_valley_grid_shape:
  "\<exists>V. plot_resilience_valley_grid seed randn g0 = Inr (V, advance randn 6400 (seed 42))
     \<and> shape V = (80, 80)"
  using variance_grid_spec [of seed randn "linspace 0.2 5.0 80" "linspace 0.5 5.5 80" g0]
  unfolding plot_resilience_valley_grid_def length_linspace
  by auto

text \<open>
  C3. Given the coordinate sequences \<^verbatim>\<open>tau_H0_vals\<close> (length \<open>m\<close>) and
  \<^verbatim>\<open>omega_vals\<close> (length \<open>n\<close>), the grid evaluation returns an array of the shape of
  the two coordinate meshes, \<open>(n, m)\<close>. Cell \<open>[i, j]\<close> is the result of
  \<^verbatim>\<open>variance_attractor\<close> at \<open>(tau_H0_vals[j], omega_vals[i])\<close>, called on the generator
  state reached \<open>i * m + j\<close> draws after seeding: the cells are filled row by row,
  ascending in both indices, one draw per cell, \<open>n * m\<close> draws in all.
\<close>

theorem grid_evaluator_cells:
  "\<exists>V. variance_grid seed randn tau_H0_vals omega_vals g0 =
          Inr (V, advance randn (length omega_vals * length tau_H0_vals) (seed 42))
     \<and> shape V = shape (fst (meshgrid tau_H0_vals omega_vals))
     \<and> shape V = shape (snd (meshgrid tau_H0_vals omega_vals))
     \<and> shape V = (length omega_vals, length tau_H0_vals)
     \<and> (\<forall>i<length omega_vals. \<forall>j<length tau_H0_vals. getitem V i j =
          Inr (fst (variance_attractor randn (tau_H0_vals ! j) (omega_vals ! i) 0.02
                 (advance randn (i * length tau_H0_vals + j) (seed 42)))))"
proof -
  from variance_grid_spec [of seed randn tau_H0_vals omega_vals g0]
  obtain V where V:
    "variance_grid seed randn tau_H0_vals omega_vals g0 =
          Inr (V, advance randn (length omega_vals * length tau_H0_vals) (seed 42))"
    "shape V = (length omega_vals, length tau_H0_vals)"
    "\<forall>i<length omega_vals. \<forall>j<length tau_H0_vals. cells V ! i ! j =
          fst (variance_attractor randn (tau_H0_vals ! j) (omega_vals ! i) 0.02
                 (advance randn (i * length tau_H0_vals + j) (seed 42)))"
    by blast
  have "\<forall>i<length omega_vals. \<forall>j<length tau_H0_vals. getitem V i j =
          Inr (fst (variance_attractor randn (tau_H0_vals ! j) (omega_vals ! i) 0.02
                 (advance randn (i * length tau_H0_vals + j) (seed 42))))"
    using V(2,3) by (simp add: getitem_def)
  with V(1,2) show ?thesis
    by (simp add: meshgrid_shape)
qed

theorem grid_evaluator_cells_witness:
  "\<exists>V. variance_grid (\<lambda>s. 0) (\<lambda>g::nat. (real g, Suc g)) [1, 2] [1] 7 = Inr (V, 2)
     \<and> shape V = (1, 2)
     \<and> getitem V 0 1 = Inr 0.04"
proof -
  from grid_evaluator_cells [of "\<lambda>s. 0" "\<lambda>g::nat. (real g, Suc g)" "[1, 2]" "[1]" 7]
  obtain V where V:
    "variance_grid (\<lambda>s. 0) (\<lambda>g::nat. (real g, Suc g)) [1, 2] [1] 7 =
       Inr (V, advance (\<lambda>g::nat. (real g, Suc g)) (length [1::real] * length [1::real, 2]) 0)"
    "shape V = (length [1::real], length [1::real, 2])"
    "\<forall>i<length [1::real]. \<forall>j<length [1::real, 2]. getitem V i j =
          Inr (fst (variance_attractor (\<lambda>g::nat. (real g, Suc g)) ([1, 2] ! j) ([1] ! i) 0.02
                 (advance (\<lambda>g::nat. (real g, Suc g)) (i * length [1::real, 2] + j) 0)))"
    by blast
  have a: "advance (\<lambda>g::nat. (real g, Suc g)) (length [1::real] * length [1::real, 2]) 0 = 2"
    by (simp add: numeral_2_eq_2)
  from V(3) have "getitem V 0 1 =
      Inr (fst (variance_attractor (\<lambda>g::nat. (real g, Suc g)) ([1, 2] ! 1) ([1] ! 0) 0.02
                 (advance (\<lambda>g::nat. (real g, Suc g)) (0 * length [1::real, 2] + 1) 0)))"
    by simp
  then have b: "getitem V 0 1 = Inr 0.04"
    by (simp add: variance_attractor_fst variance_before_noise_closed py_max_def)
  from V(1,2) a b show ?thesis by simp
qed

text \<open>
  C4. Two runs of the grid evaluation on the same coordinate sequences produce the same
  variance array (and leave the same generator state), whatever state the generator
  was in when each run began: line 182 seeds it with 42 before the traversal.
\<close>

theorem grid_evaluation_reproducible:
  "variance_grid seed randn tau_H0_vals omega_vals g1 =
     variance_grid seed randn tau_H0_vals omega_vals g2
   \<and> (\<exists>V g'. variance_grid seed randn tau_H0_vals omega_vals g1 = Inr (V, g'))
   \<and> plot_resilience_valley_grid seed randn g1 = plot_resilience_valley_grid seed randn g2"
proof (intro conjI)
  show "variance_grid seed randn tau_H0_vals omega_vals g1 =
     variance_grid seed randn tau_H0_vals omega_vals g2"
    by (simp add: variance_grid_def)
  show "\<exists>V g'. variance_grid seed randn tau_H0_vals omega_vals g1 = Inr (V, g')"
    using variance_grid_spec [of seed randn tau_H0_vals omega_vals g1] by blast
  show "plot_resilience_valley_grid seed randn g1 = plot_resilience_valley_grid seed randn g2"
    by (simp add: plot_resilience_valley_grid_def variance_grid_def)
qed

theorem grid_evaluation_reproducible_witness:
  "variance_grid (\<lambda>s. s) (\<lambda>g::nat. (real g, Suc g)) [1, 2] [1] 7 =
     variance_grid (\<lambda>s. s) (\<lambda>g::nat. (real g, Suc g)) [1, 2] [1] 99"
  using grid_evaluation_reproducible [of "\<lambda>s. s" "\<lambda>g::nat. (real g, Suc g)" "[1, 2]" "[1]" 7 99]
  by simp

end
